theory Spec2Isabelle
  imports Complex_Main
begin

section \<open>Keyboard state\<close>

text \<open>
  The keyboard state of both source files is the object created by
  \<^verbatim>\<open>useState({ w: false, s: false, a: false, d: false, space: false })\<close>
  (\<^verbatim>\<open>src/app/page.tsx\<close> lines 24-30, the second file lines 86-92, typed there by
  \<^verbatim>\<open>interface KeyState\<close>). Every later state is built by the spread
  \<^verbatim>\<open>{ ...prev, [key]: value }\<close>, which copies every own property of \<^verbatim>\<open>prev\<close> and
  never removes one, so the five flags are always present. A computed key that is none of
  the five names creates a further own property; these are kept in \<open>others\<close>.
\<close>

record KeyState =
  w :: bool
  s :: bool
  a :: bool
  d :: bool
  space :: bool
  others :: "string \<rightharpoonup> bool"

definition initialKeys :: KeyState where
  "initialKeys = \<lparr> w = False, s = False, a = False, d = False, space = False,
                   others = Map.empty \<rparr>"

text \<open>
  \<^verbatim>\<open>String.prototype.toLowerCase\<close> on the characters of the model (8-bit characters):
  the Latin capital letters A to Z are mapped to their small letters, every other
  character is kept.
\<close>

definition toLowerCase_char :: "char \<Rightarrow> char" where
  "toLowerCase_char c =
     (case map_of (zip ''ABCDEFGHIJKLMNOPQRSTUVWXYZ'' ''abcdefghijklmnopqrstuvwxyz'') c of
        Some l \<Rightarrow> l
      | None \<Rightarrow> c)"

definition toLowerCase :: "string \<Rightarrow> string" where
  "toLowerCase str = map toLowerCase_char str"

text \<open>
  The object literal \<^verbatim>\<open>{ ...prev, [key]: value }\<close>: a copy of \<^verbatim>\<open>prev\<close> in which the
  property named \<^verbatim>\<open>key\<close> holds \<^verbatim>\<open>value\<close>.
\<close>

definition spread_with :: "KeyState \<Rightarrow> string \<Rightarrow> bool \<Rightarrow> KeyState" where
  "spread_with prev key val =
     (if key = ''w'' then prev\<lparr> w := val \<rparr>
      else if key = ''s'' then prev\<lparr> s := val \<rparr>
      else if key = ''a'' then prev\<lparr> a := val \<rparr>
      else if key = ''d'' then prev\<lparr> d := val \<rparr>
      else if key = ''space'' then prev\<lparr> space := val \<rparr>
      else prev\<lparr> others := (others prev)(key \<mapsto> val) \<rparr>)"

text \<open>
  The operator \<^verbatim>\<open>key in keys\<close> holds for the own properties of the object and for the
  properties it inherits from \<^verbatim>\<open>Object.prototype\<close>, listed here by name.
\<close>

definition Object_prototype_names :: "string list" where
  "Object_prototype_names =
     [''constructor'', ''__defineGetter__'', ''__defineSetter__'', ''hasOwnProperty'',
      ''__lookupGetter__'', ''__lookupSetter__'', ''isPrototypeOf'',
      ''propertyIsEnumerable'', ''toString'', ''valueOf'', ''__proto__'',
      ''toLocaleString'']"

definition js_in :: "string \<Rightarrow> KeyState \<Rightarrow> bool" where
  "js_in key keys \<longleftrightarrow>
     key \<in> set [''w'', ''s'', ''a'', ''d'', ''space'']
     \<or> others keys key \<noteq> None
     \<or> key \<in> set Object_prototype_names"

subsection \<open>The handlers of \<^verbatim>\<open>src/app/page.tsx\<close> (lines 44-60)\<close>

text \<open>
  Each handler calls \<^verbatim>\<open>setKeys\<close> with an updater; the model is the updater applied to
  the previous state \<open>prev\<close>. The first argument is \<^verbatim>\<open>event.key\<close>.
\<close>

definition handleKeyDown_page :: "string \<Rightarrow> KeyState \<Rightarrow> KeyState" where
  "handleKeyDown_page event_key prev =
     (let key = toLowerCase event_key in
      if key = '' '' then prev\<lparr> space := True \<rparr>
      else spread_with prev key True)"

definition handleKeyUp_page :: "string \<Rightarrow> KeyState \<Rightarrow> KeyState" where
  "handleKeyUp_page event_key prev =
     (let key = toLowerCase event_key in
      if key = '' '' then prev\<lparr> space := False \<rparr>
      else spread_with prev key False)"

subsection \<open>The handlers of \<^verbatim>\<open>useKeyboardControls\<close> (second file, lines 95-111)\<close>

text \<open>
  Here the handlers close over \<open>keys\<close>, the state of the render that installed them, and
  test \<^verbatim>\<open>key in keys\<close> before they call \<^verbatim>\<open>setKeys\<close>. When neither branch is taken
  \<^verbatim>\<open>setKeys\<close> is not called and the state stays \<open>prev\<close>.
\<close>

definition handleKeyDown :: "KeyState \<Rightarrow> string \<Rightarrow> KeyState \<Rightarrow> KeyState" where
  "handleKeyDown keys event_key prev =
     (let key = toLowerCase event_key in
      if key = '' '' then prev\<lparr> space := True \<rparr>
      else if js_in key keys then spread_with prev key True
      else prev)"

definition handleKeyUp :: "KeyState \<Rightarrow> string \<Rightarrow> KeyState \<Rightarrow> KeyState" where
  "handleKeyUp keys event_key prev =
     (let key = toLowerCase event_key in
      if key = '' '' then prev\<lparr> space := False \<rparr>
      else if js_in key keys then spread_with prev key False
      else prev)"

section \<open>Numbers and vectors\<close>

text \<open>
  JavaScript numbers are modelled as \<^typ>\<open>real\<close>: the arithmetic of the frame callback
  is read as exact arithmetic. There is no NaN and no infinity in the model; the callback
  produces none from finite inputs, since its only division is guarded (see \<open>normalize\<close>).
\<close>

text \<open>\<^verbatim>\<open>Number(b)\<close> for a boolean \<open>b\<close>: 1 for true, 0 for false.\<close>

definition Number :: "bool \<Rightarrow> real" where
  "Number b = (if b then 1 else 0)"

text \<open>
  The three-element arrays \<^verbatim>\<open>position.current\<close> and \<^verbatim>\<open>velocity.current\<close>, and
  the argument triples of \<^verbatim>\<open>api.velocity.set\<close>; \<open>at0\<close>, \<open>at1\<close>, \<open>at2\<close> read the
  indices 0, 1, 2.
\<close>

datatype Triplet = Triplet (at0: real) (at1: real) (at2: real)

datatype Vector3 = Vector3 (vec_x: real) (vec_y: real) (vec_z: real)

datatype Euler = Euler (euler_x: real) (euler_y: real) (euler_z: real)

datatype Quaternion = Quaternion (quat_x: real) (quat_y: real) (quat_z: real) (quat_w: real)

text \<open>
  Modelled from the spec: the methods of \<^verbatim>\<open>THREE.Vector3\<close> that the frame callback
  chains (\<^verbatim>\<open>set\<close>, \<^verbatim>\<open>subVectors\<close>, \<^verbatim>\<open>length\<close>, \<^verbatim>\<open>multiplyScalar\<close>,
  \<^verbatim>\<open>divideScalar\<close>, \<^verbatim>\<open>normalize\<close>) belong to the rendering library, which is imported by
  the source files and is not part of them. The specification describes them as the
  componentwise difference, the scaling by a constant, and a normalisation that ``must
  not raise an error'' on a zero-length vector and ``must yield a zero vector''. The
  definitions follow the library's way of doing that: \<^verbatim>\<open>normalize\<close> divides by
  \<^verbatim>\<open>length() || 1\<close>, that is by 1 when the length is 0, and \<^verbatim>\<open>divideScalar(k)\<close> multiplies
  by \<^verbatim>\<open>1 / k\<close>. Each method mutates its receiver and returns it; the model returns the new
  value.
\<close>

definition set_vec :: "real \<Rightarrow> real \<Rightarrow> real \<Rightarrow> Vector3" where
  "set_vec px py pz = Vector3 px py pz"

definition subVectors :: "Vector3 \<Rightarrow> Vector3 \<Rightarrow> Vector3" where
  "subVectors p q = Vector3 (vec_x p - vec_x q) (vec_y p - vec_y q) (vec_z p - vec_z q)"

definition length_vec :: "Vector3 \<Rightarrow> real" where
  "length_vec p = sqrt (vec_x p * vec_x p + vec_y p * vec_y p + vec_z p * vec_z p)"

definition multiplyScalar :: "Vector3 \<Rightarrow> real \<Rightarrow> Vector3" where
  "multiplyScalar p k = Vector3 (vec_x p * k) (vec_y p * k) (vec_z p * k)"

definition divideScalar :: "Vector3 \<Rightarrow> real \<Rightarrow> Vector3" where
  "divideScalar p k = multiplyScalar p (1 / k)"

definition normalize :: "Vector3 \<Rightarrow> Vector3" where
  "normalize p = divideScalar p (if length_vec p = 0 then 1 else length_vec p)"

text \<open>
  Modelled from the spec: \<^verbatim>\<open>Vector3.applyEuler\<close>, also of the rendering library, is the
  step the specification calls ``rotate it by the camera's current yaw/pitch/roll''. The
  library turns the Euler angles into a unit quaternion (\<^verbatim>\<open>Quaternion.setFromEuler\<close>, for
  the rotation order XYZ, which is the order of \<^verbatim>\<open>camera.rotation\<close> unless a program
  changes it, and neither source file does) and rotates the vector by it
  (\<^verbatim>\<open>Vector3.applyQuaternion\<close>).
\<close>

definition setFromEuler :: "Euler \<Rightarrow> Quaternion" where
  "setFromEuler e =
     (let c1 = cos (euler_x e / 2); c2 = cos (euler_y e / 2); c3 = cos (euler_z e / 2);
          s1 = sin (euler_x e / 2); s2 = sin (euler_y e / 2); s3 = sin (euler_z e / 2)
      in Quaternion (s1 * c2 * c3 + c1 * s2 * s3)
                    (c1 * s2 * c3 - s1 * c2 * s3)
                    (c1 * c2 * s3 + s1 * s2 * c3)
                    (c1 * c2 * c3 - s1 * s2 * s3))"

definition applyQuaternion :: "Vector3 \<Rightarrow> Quaternion \<Rightarrow> Vector3" where
  "applyQuaternion p q =
     (let tx = 2 * (quat_y q * vec_z p - quat_z q * vec_y p);
          ty = 2 * (quat_z q * vec_x p - quat_x q * vec_z p);
          tz = 2 * (quat_x q * vec_y p - quat_y q * vec_x p)
      in Vector3 (vec_x p + quat_w q * tx + quat_y q * tz - quat_z q * ty)
                 (vec_y p + quat_w q * ty + quat_z q * tx - quat_x q * tz)
                 (vec_z p + quat_w q * tz + quat_x q * ty - quat_y q * tx))"

definition applyEuler :: "Vector3 \<Rightarrow> Euler \<Rightarrow> Vector3" where
  "applyEuler p e = applyQuaternion p (setFromEuler e)"

section \<open>The frame callback of the player\<close>

text \<open>
  \<^verbatim>\<open>PLAYER_CONFIG\<close> of the second file (lines 37-44); \<^verbatim>\<open>src/app/page.tsx\<close> writes the
  same three numbers as literals.
\<close>

definition moveSpeed :: real where "moveSpeed = 5"
definition jumpForce :: real where "jumpForce = 5"
definition jumpThreshold :: real where "jumpThreshold = 1 / 10"

text \<open>
  The first statements of the callback are the same in both files
  (\<^verbatim>\<open>src/app/page.tsx\<close> lines 74-75, second file lines 164-165):
  \<^verbatim>\<open>frontVector.set(0, 0, Number(keys.s) - Number(keys.w))\<close> and
  \<^verbatim>\<open>sideVector.set(Number(keys.a) - Number(keys.d), 0, 0)\<close>.
\<close>

definition frontVector :: "KeyState \<Rightarrow> Vector3" where
  "frontVector keys = set_vec 0 0 (Number (s keys) - Number (w keys))"

definition sideVector :: "KeyState \<Rightarrow> Vector3" where
  "sideVector keys = set_vec (Number (a keys) - Number (d keys)) 0 0"

text \<open>
  The chain \<^verbatim>\<open>direction.subVectors(frontVector, sideVector).normalize()\<close>, that is
  the direction before it is scaled and rotated.
\<close>

definition direction_normalized :: "KeyState \<Rightarrow> Vector3" where
  "direction_normalized keys = normalize (subVectors (frontVector keys) (sideVector keys))"

text \<open>
  The whole chain of the second file (lines 167-171), with
  \<^verbatim>\<open>.multiplyScalar(PLAYER_CONFIG.moveSpeed).applyEuler(camera.rotation)\<close>, and of
  \<^verbatim>\<open>src/app/page.tsx\<close> (lines 76-80), with \<^verbatim>\<open>.multiplyScalar(5)\<close>.
\<close>

definition direction :: "KeyState \<Rightarrow> Euler \<Rightarrow> Vector3" where
  "direction keys camera_rotation =
     applyEuler (multiplyScalar (direction_normalized keys) moveSpeed) camera_rotation"

definition direction_page :: "KeyState \<Rightarrow> Euler \<Rightarrow> Vector3" where
  "direction_page keys camera_rotation =
     applyEuler (multiplyScalar (direction_normalized keys) 5) camera_rotation"

text \<open>
  What one run of the callback does to the world outside it: the calls of
  \<^verbatim>\<open>api.velocity.set\<close> it makes, in order, each with its three arguments, and the
  position it copies into \<^verbatim>\<open>camera.position\<close>.
\<close>

record Frame =
  velocity_set_calls :: "Triplet list"
  camera_position :: Vector3

text \<open>
  The callback reads the keyboard state of the current render, the rotation of the
  camera, and the two caches \<^verbatim>\<open>velocity.current\<close> and \<^verbatim>\<open>position.current\<close> that the
  subscriptions fill with the last values the physics engine reported. A call of
  \<^verbatim>\<open>api.velocity.set\<close> sends a command to the engine; it does not write to
  \<^verbatim>\<open>velocity.current\<close>, so both reads of the cache in one run see the same value.
\<close>

text \<open>The callback of the second file (lines 158-189).\<close>

definition Player_useFrame :: "KeyState \<Rightarrow> Euler \<Rightarrow> Triplet \<Rightarrow> Triplet \<Rightarrow> Frame" where
  "Player_useFrame keys camera_rotation velocity_current position_current =
     (let dir = direction keys camera_rotation;
          movement = Triplet (vec_x dir) (at1 velocity_current) (vec_z dir);
          isGrounded = \<bar>at1 velocity_current\<bar> < jumpThreshold;
          jump = (if space keys \<and> isGrounded
                  then [Triplet (at0 velocity_current) jumpForce (at2 velocity_current)]
                  else [])
      in \<lparr> velocity_set_calls = movement # jump,
           camera_position = Vector3 (at0 position_current) (at1 position_current)
                                     (at2 position_current) \<rparr>)"

text \<open>The callback of \<^verbatim>\<open>src/app/page.tsx\<close> (lines 72-92).\<close>

definition Player_useFrame_page :: "KeyState \<Rightarrow> Euler \<Rightarrow> Triplet \<Rightarrow> Triplet \<Rightarrow> Frame" where
  "Player_useFrame_page keys camera_rotation velocity_current position_current =
     (let dir = direction_page keys camera_rotation;
          movement = Triplet (vec_x dir) (at1 velocity_current) (vec_z dir);
          jump = (if space keys \<and> \<bar>at1 velocity_current\<bar> < 1 / 10
                  then [Triplet (at0 velocity_current) 5 (at2 velocity_current)]
                  else [])
      in \<lparr> velocity_set_calls = movement # jump,
           camera_position = Vector3 (at0 position_current) (at1 position_current)
                                     (at2 position_current) \<rparr>)"

text \<open>
  The first call of a run is the movement command; the last call is the command the
  engine applies last, the jump when there is one.
\<close>

definition movement_command :: "Frame \<Rightarrow> Triplet" where
  "movement_command fr = hd (velocity_set_calls fr)"

definition final_command :: "Frame \<Rightarrow> Triplet" where
  "final_command fr = last (velocity_set_calls fr)"

section \<open>Subscriptions and the life of the player component\<close>

text \<open>
  Modelled from the spec: \<^verbatim>\<open>api.position.subscribe\<close> and \<^verbatim>\<open>api.velocity.subscribe\<close>
  belong to the physics binding, \<^verbatim>\<open>window.addEventListener\<close> to the host and
  \<^verbatim>\<open>useEffect\<close> to the component library; none of them is part of the source files. The
  specification calls the pattern ``scoped acquisition/release'': a subscription is
  established by a call that hands back the function releasing it, and an effect runs
  when the component is created and may return a clean-up function, which runs when the
  component is torn down. The world below holds what is registered at a moment: the
  subscriptions of the player's body, each with the number it was given, and the
  listeners of the window.
\<close>

datatype Topic = Position | Velocity

record World =
  subscriptions :: "(nat \<times> Topic) list"
  incrementingId :: nat
  listeners :: "(string \<times> string) list"

definition emptyWorld :: World where
  "emptyWorld = \<lparr> subscriptions = [], incrementingId = 0, listeners = [] \<rparr>"

text \<open>
  \<open>subscribe\<close> returns the number of the new subscription with the new world; the function
  that the library hands back is \<open>unsubscribe\<close> at that number.
\<close>

definition subscribe :: "Topic \<Rightarrow> World \<Rightarrow> nat \<times> World" where
  "subscribe topic wld =
     (incrementingId wld,
      wld\<lparr> subscriptions := subscriptions wld @ [(incrementingId wld, topic)],
           incrementingId := incrementingId wld + 1 \<rparr>)"

definition unsubscribe :: "nat \<Rightarrow> World \<Rightarrow> World" where
  "unsubscribe n wld =
     wld\<lparr> subscriptions := filter (\<lambda>sub. fst sub \<noteq> n) (subscriptions wld) \<rparr>"

definition addEventListener :: "string \<Rightarrow> string \<Rightarrow> World \<Rightarrow> World" where
  "addEventListener type handler wld =
     (if (type, handler) \<in> set (listeners wld) then wld
      else wld\<lparr> listeners := listeners wld @ [(type, handler)] \<rparr>)"

definition removeEventListener :: "string \<Rightarrow> string \<Rightarrow> World \<Rightarrow> World" where
  "removeEventListener type handler wld =
     wld\<lparr> listeners := filter (\<lambda>l. l \<noteq> (type, handler)) (listeners wld) \<rparr>"

type_synonym Cleanup = "World \<Rightarrow> World"

type_synonym Effect = "World \<Rightarrow> World \<times> Cleanup option"

text \<open>
  Creating the component runs its effects in the order of the hooks and keeps the
  clean-up functions they return; tearing it down runs the kept functions.
\<close>

fun run_effects :: "Effect list \<Rightarrow> World \<Rightarrow> World \<times> Cleanup list" where
  "run_effects [] wld = (wld, [])"
| "run_effects (eff # effs) wld =
     (case eff wld of (wld1, cleanup) \<Rightarrow>
        (case run_effects effs wld1 of (wld2, cleanups) \<Rightarrow>
           (wld2, (case cleanup of None \<Rightarrow> cleanups | Some f \<Rightarrow> f # cleanups))))"

fun run_cleanups :: "Cleanup list \<Rightarrow> World \<Rightarrow> World" where
  "run_cleanups [] wld = wld"
| "run_cleanups (f # fs) wld = run_cleanups fs (f wld)"

definition mount :: "Effect list \<Rightarrow> World \<Rightarrow> World" where
  "mount effs wld = fst (run_effects effs wld)"

definition mount_then_teardown :: "Effect list \<Rightarrow> World \<Rightarrow> World" where
  "mount_then_teardown effs wld =
     (case run_effects effs wld of (wld1, cleanups) \<Rightarrow> run_cleanups cleanups wld1)"

text \<open>
  The effect that installs the two key handlers and returns the function removing them
  (\<^verbatim>\<open>src/app/page.tsx\<close> lines 43-69, second file lines 94-120).
\<close>

definition key_handlers_effect :: Effect where
  "key_handlers_effect wld =
     (addEventListener ''keyup'' ''handleKeyUp''
        (addEventListener ''keydown'' ''handleKeyDown'' wld),
      Some (\<lambda>wld1. removeEventListener ''keyup'' ''handleKeyUp''
                     (removeEventListener ''keydown'' ''handleKeyDown'' wld1)))"

text \<open>
  The two subscription effects of \<^verbatim>\<open>src/app/page.tsx\<close> (lines 20-22 and 33-35). Each
  calls \<^verbatim>\<open>subscribe\<close> in a block without a \<^verbatim>\<open>return\<close>: the function handed back by
  \<^verbatim>\<open>subscribe\<close> is dropped and the effect has no clean-up.
\<close>

definition position_effect_page :: Effect where
  "position_effect_page wld = (snd (subscribe Position wld), None)"

definition velocity_effect_page :: Effect where
  "velocity_effect_page wld = (snd (subscribe Velocity wld), None)"

definition Player_effects_page :: "Effect list" where
  "Player_effects_page = [position_effect_page, velocity_effect_page, key_handlers_effect]"

text \<open>
  The subscription effect of the second file (lines 143-155): it keeps
  \<^verbatim>\<open>unsubscribePos\<close> and \<^verbatim>\<open>unsubscribeVel\<close> and returns a function that calls both.
  \<^verbatim>\<open>useKeyboardControls\<close> is called before it (line 139).
\<close>

definition subscriptions_effect :: Effect where
  "subscriptions_effect wld =
     (case subscribe Position wld of (unsubscribePos, wld1) \<Rightarrow>
        (case subscribe Velocity wld1 of (unsubscribeVel, wld2) \<Rightarrow>
           (wld2, Some (\<lambda>wld3. unsubscribe unsubscribeVel (unsubscribe unsubscribePos wld3)))))"

definition Player_effects :: "Effect list" where
  "Player_effects = [key_handlers_effect, subscriptions_effect]"

section \<open>Shared facts\<close>

lemmas frame_defs = Player_useFrame_def Player_useFrame_page_def direction_def direction_page_def
  moveSpeed_def jumpForce_def jumpThreshold_def movement_command_def final_command_def

lemmas vector_defs = direction_normalized_def frontVector_def sideVector_def set_vec_def
  subVectors_def normalize_def divideScalar_def multiplyScalar_def length_vec_def Number_def

lemmas handler_defs = handleKeyDown_page_def handleKeyUp_page_def handleKeyDown_def
  handleKeyUp_def spread_with_def js_in_def

lemmas lower_defs = toLowerCase_def toLowerCase_char_def

lemmas world_defs = mount_def mount_then_teardown_def subscribe_def unsubscribe_def
  addEventListener_def removeEventListener_def key_handlers_effect_def
  position_effect_page_def velocity_effect_page_def subscriptions_effect_def

text \<open>The two files compute the same frame: the literals of one are the configuration of the other.\<close>

lemma Player_useFrame_page_eq:
  "Player_useFrame_page keys rot vel pos = Player_useFrame keys rot vel pos"
  by (simp add: frame_defs)

lemma applyEuler_identity: "applyEuler p (Euler 0 0 0) = p"
  by (cases p) (simp add: applyEuler_def setFromEuler_def applyQuaternion_def)

lemma applyEuler_zero: "applyEuler (Vector3 0 0 0) e = Vector3 0 0 0"
  by (simp add: applyEuler_def setFromEuler_def applyQuaternion_def Let_def)

lemma subVectors_front_side:
  "subVectors (frontVector keys) (sideVector keys) =
     Vector3 (Number (d keys) - Number (a keys)) 0 (Number (s keys) - Number (w keys))"
  by (simp add: frontVector_def sideVector_def set_vec_def subVectors_def)

lemma normalize_zero: "normalize (Vector3 0 0 0) = Vector3 0 0 0"
  by (simp add: normalize_def divideScalar_def multiplyScalar_def length_vec_def)

section \<open>The direction of movement\<close>

text \<open>
  Claim C1, as the code has it. For every state of the four movement keys, the direction
  computed before scaling and rotation is the normalisation of the vector whose x
  component is right minus left (\<open>d\<close> minus \<open>a\<close>), whose y component is 0 and whose z
  component is backward minus forward (\<open>s\<close> minus \<open>w\<close>); it is the zero vector when the
  front axis and the side axis are both zero.
\<close>

theorem direction_before_rotation:
  "direction_normalized keys =
     normalize (Vector3 (Number (d keys) - Number (a keys)) 0 (Number (s keys) - Number (w keys)))
   \<and> (Number (s keys) - Number (w keys) = 0 \<and> Number (a keys) - Number (d keys) = 0
        \<longrightarrow> direction_normalized keys = Vector3 0 0 0)"
  by (simp add: direction_normalized_def subVectors_front_side normalize_zero)

text \<open>Forward and backward held together: both axes are zero and so is the direction.\<close>

theorem direction_before_rotation_witness:
  "Number (s (initialKeys\<lparr> w := True, s := True \<rparr>))
     - Number (w (initialKeys\<lparr> w := True, s := True \<rparr>)) = 0
   \<and> Number (a (initialKeys\<lparr> w := True, s := True \<rparr>))
     - Number (d (initialKeys\<lparr> w := True, s := True \<rparr>)) = 0
   \<and> direction_normalized (initialKeys\<lparr> w := True, s := True \<rparr>) = Vector3 0 0 0"
  using direction_before_rotation [of "initialKeys\<lparr> w := True, s := True \<rparr>"]
  by (simp add: Number_def initialKeys_def normalize_zero)

text \<open>
  Claim C1 as it is worded puts backward minus forward in the x component and left minus
  right in the z component. With the forward key alone the code computes \<open>(0, 0, -1)\<close>,
  the worded formula gives \<open>(-1, 0, 0)\<close>.
\<close>

theorem direction_axes_counterexample:
  "direction_normalized (initialKeys\<lparr> w := True \<rparr>) = Vector3 0 0 (- 1)
   \<and> normalize (Vector3 (Number (s (initialKeys\<lparr> w := True \<rparr>))
                            - Number (w (initialKeys\<lparr> w := True \<rparr>))) 0
                         (Number (a (initialKeys\<lparr> w := True \<rparr>))
                            - Number (d (initialKeys\<lparr> w := True \<rparr>))))
       = Vector3 (- 1) 0 0
   \<and> direction_normalized (initialKeys\<lparr> w := True \<rparr>)
       \<noteq> normalize (Vector3 (Number (s (initialKeys\<lparr> w := True \<rparr>))
                              - Number (w (initialKeys\<lparr> w := True \<rparr>))) 0
                           (Number (a (initialKeys\<lparr> w := True \<rparr>))
                              - Number (d (initialKeys\<lparr> w := True \<rparr>))))"
  by (simp add: vector_defs initialKeys_def)

section \<open>The jump command\<close>

text \<open>
  Claim C2, as the code has it. Whenever the jump key is pressed and the grounded
  heuristic holds, the frame issues two velocity commands: the movement command and then
  the jump command, whose vertical component is the jump force and whose horizontal
  components are those of the cached velocity, the last one the engine reported, not
  those of the movement command of the same frame.
\<close>

theorem jump_command:
  assumes "space keys" and "\<bar>at1 vel\<bar> < jumpThreshold"
  shows "velocity_set_calls (Player_useFrame keys rot vel pos) =
           [Triplet (vec_x (direction keys rot)) (at1 vel) (vec_z (direction keys rot)),
            Triplet (at0 vel) jumpForce (at2 vel)]
         \<and> velocity_set_calls (Player_useFrame_page keys rot vel pos) =
           [Triplet (vec_x (direction_page keys rot)) (at1 vel) (vec_z (direction_page keys rot)),
            Triplet (at0 vel) 5 (at2 vel)]"
  using assms by (simp add: Player_useFrame_def Player_useFrame_page_def jumpThreshold_def Let_def)

text \<open>
  Right and jump pressed, the camera unrotated, the cached velocity \<open>(2, 0.05, -1)\<close>: the
  movement command is \<open>(5, 0.05, 0)\<close> and the jump command is \<open>(2, 5, -1)\<close>.
\<close>

theorem jump_command_witness:
  "space (initialKeys\<lparr> d := True, space := True \<rparr>)
   \<and> \<bar>at1 (Triplet 2 0.05 (- 1))\<bar> < jumpThreshold
   \<and> velocity_set_calls (Player_useFrame (initialKeys\<lparr> d := True, space := True \<rparr>)
        (Euler 0 0 0) (Triplet 2 0.05 (- 1)) (Triplet 0 1 0))
       = [Triplet 5 0.05 0, Triplet 2 5 (- 1)]"
  using jump_command [of "initialKeys\<lparr> d := True, space := True \<rparr>" "Triplet 2 0.05 (- 1)"
                         "Euler 0 0 0" "Triplet 0 1 0"]
  by (simp add: initialKeys_def jumpThreshold_def jumpForce_def direction_def applyEuler_identity
        moveSpeed_def vector_defs)

text \<open>
  Claim C2 as it is worded says that the jump command keeps the horizontal components
  just computed. With forward and jump pressed, the camera unrotated and a cached velocity
  of zero, the movement command is \<open>(0, 0, -5)\<close> and the jump command is \<open>(0, 5, 0)\<close>.
\<close>

theorem jump_horizontal_counterexample:
  "space (initialKeys\<lparr> w := True, space := True \<rparr>)
   \<and> \<bar>at1 (Triplet 0 0 0)\<bar> < jumpThreshold
   \<and> velocity_set_calls (Player_useFrame (initialKeys\<lparr> w := True, space := True \<rparr>)
        (Euler 0 0 0) (Triplet 0 0 0) (Triplet 0 1 0)) = [Triplet 0 0 (- 5), Triplet 0 5 0]
   \<and> at2 (final_command (Player_useFrame (initialKeys\<lparr> w := True, space := True \<rparr>)
        (Euler 0 0 0) (Triplet 0 0 0) (Triplet 0 1 0)))
     \<noteq> at2 (movement_command (Player_useFrame (initialKeys\<lparr> w := True, space := True \<rparr>)
        (Euler 0 0 0) (Triplet 0 0 0) (Triplet 0 1 0)))"
  by (simp add: frame_defs applyEuler_identity vector_defs initialKeys_def)

section \<open>The key handlers\<close>

text \<open>
  Claim C3 says that an event whose key is none of the five recognized keys leaves the
  keyboard state unchanged. The handlers of \<^verbatim>\<open>src/app/page.tsx\<close> have no test of the
  key: on the key \<open>x\<close> the key-down handler stores a new property \<open>x\<close> with the value
  true, the key-up handler stores it with the value false, and the state is no longer the
  one before the event.
\<close>

theorem unrecognized_key_page:
  "handleKeyDown_page ''x'' initialKeys = initialKeys\<lparr> others := [''x'' \<mapsto> True] \<rparr>
   \<and> handleKeyDown_page ''x'' initialKeys \<noteq> initialKeys
   \<and> handleKeyUp_page ''x'' initialKeys = initialKeys\<lparr> others := [''x'' \<mapsto> False] \<rparr>
   \<and> handleKeyUp_page ''x'' initialKeys \<noteq> initialKeys"
  by (simp add: handler_defs lower_defs initialKeys_def)

text \<open>
  The handlers of the second file test \<^verbatim>\<open>key in keys\<close> first and do ignore such an
  event: the state is unchanged for every key that is not the space character, not the
  name of a property of the state, and not a name inherited from \<^verbatim>\<open>Object.prototype\<close>.
\<close>

lemma unrecognized_key_ignored:
  assumes "toLowerCase event_key \<notin> {'' '', ''w'', ''s'', ''a'', ''d'', ''space''}"
    and "others keys (toLowerCase event_key) = None"
    and "toLowerCase event_key \<notin> set Object_prototype_names"
  shows "handleKeyDown keys event_key prev = prev \<and> handleKeyUp keys event_key prev = prev"
  using assms by (simp add: handleKeyDown_def handleKeyUp_def js_in_def)

lemma unrecognized_key_ignored_example:
  "handleKeyDown initialKeys ''x'' initialKeys = initialKeys
   \<and> handleKeyUp initialKeys ''Enter'' initialKeys = initialKeys"
  by (simp add: handler_defs lower_defs initialKeys_def Object_prototype_names_def)

text \<open>
  In \<^verbatim>\<open>src/app/page.tsx\<close> the five flags themselves keep their values on such an event;
  what changes is the set of properties of the state.
\<close>

lemma unrecognized_key_page_flags:
  assumes "toLowerCase event_key \<notin> {'' '', ''w'', ''s'', ''a'', ''d'', ''space''}"
  shows "w (handleKeyDown_page event_key prev) = w prev"
    and "s (handleKeyDown_page event_key prev) = s prev"
    and "a (handleKeyDown_page event_key prev) = a prev"
    and "d (handleKeyDown_page event_key prev) = d prev"
    and "space (handleKeyDown_page event_key prev) = space prev"
    and "w (handleKeyUp_page event_key prev) = w prev"
    and "s (handleKeyUp_page event_key prev) = s prev"
    and "a (handleKeyUp_page event_key prev) = a prev"
    and "d (handleKeyUp_page event_key prev) = d prev"
    and "space (handleKeyUp_page event_key prev) = space prev"
  using assms by (simp_all add: handleKeyDown_page_def handleKeyUp_page_def spread_with_def)

text \<open>
  Claim C10. For every key-down or key-up event whose key, in lower case, is one of
  \<open>w\<close>, \<open>s\<close>, \<open>a\<close>, \<open>d\<close> or the space character, and for every previous state, the new
  state is the previous one with the flag of that key set (true on key-down, false on
  key-up): the other four flags and the further properties are those of the previous
  state. The handlers of the second file do the same as those of \<^verbatim>\<open>src/app/page.tsx\<close>,
  whatever state they closed over.
\<close>

theorem recognized_key_sets_its_flag:
  assumes "toLowerCase event_key \<in> {''w'', ''s'', ''a'', ''d'', '' ''}"
  shows "handleKeyDown_page event_key prev =
           prev\<lparr> w := (if toLowerCase event_key = ''w'' then True else w prev),
                 s := (if toLowerCase event_key = ''s'' then True else s prev),
                 a := (if toLowerCase event_key = ''a'' then True else a prev),
                 d := (if toLowerCase event_key = ''d'' then True else d prev),
                 space := (if toLowerCase event_key = '' '' then True else space prev) \<rparr>
       \<and> handleKeyUp_page event_key prev =
           prev\<lparr> w := (if toLowerCase event_key = ''w'' then False else w prev),
                 s := (if toLowerCase event_key = ''s'' then False else s prev),
                 a := (if toLowerCase event_key = ''a'' then False else a prev),
                 d := (if toLowerCase event_key = ''d'' then False else d prev),
                 space := (if toLowerCase event_key = '' '' then False else space prev) \<rparr>
       \<and> handleKeyDown keys event_key prev = handleKeyDown_page event_key prev
       \<and> handleKeyUp keys event_key prev = handleKeyUp_page event_key prev"
  using assms by (auto simp add: handler_defs)

text \<open>
  The key \<open>W\<close> (shift held) while jump is pressed: key-down sets \<open>w\<close> and keeps \<open>space\<close>,
  key-up clears \<open>w\<close> again.
\<close>

theorem recognized_key_sets_its_flag_witness:
  "toLowerCase ''W'' \<in> {''w'', ''s'', ''a'', ''d'', '' ''}
   \<and> handleKeyDown_page ''W'' (initialKeys\<lparr> space := True \<rparr>)
       = initialKeys\<lparr> w := True, space := True \<rparr>
   \<and> handleKeyUp (initialKeys\<lparr> space := True \<rparr>) ''W'' (initialKeys\<lparr> w := True, space := True \<rparr>)
       = initialKeys\<lparr> space := True \<rparr>"
  using recognized_key_sets_its_flag
          [of "''W''" "initialKeys\<lparr> space := True \<rparr>" "initialKeys\<lparr> space := True \<rparr>"]
        recognized_key_sets_its_flag
          [of "''W''" "initialKeys\<lparr> w := True, space := True \<rparr>" "initialKeys\<lparr> space := True \<rparr>"]
  by (simp add: lower_defs initialKeys_def)

section \<open>The velocity commands of a frame\<close>

text \<open>
  Claim C4. For every frame and every keyboard state, the vertical component of the
  movement command is the vertical component of the cached velocity, the last one the
  engine reported: the command never replaces it by zero, and it is different from zero
  whenever the cached value is.
\<close>

theorem movement_keeps_vertical:
  "at1 (movement_command (Player_useFrame keys rot vel pos)) = at1 vel
   \<and> at1 (movement_command (Player_useFrame_page keys rot vel pos)) = at1 vel
   \<and> (at1 vel \<noteq> 0 \<longrightarrow>
        at1 (movement_command (Player_useFrame keys rot vel pos)) \<noteq> 0
        \<and> at1 (movement_command (Player_useFrame_page keys rot vel pos)) \<noteq> 0)"
  by (simp add: Player_useFrame_def Player_useFrame_page_def movement_command_def Let_def)

text \<open>The right key held while falling at 2 units per second: the command keeps the \<open>-2\<close>.\<close>

theorem movement_keeps_vertical_witness:
  "at1 (Triplet 3 (- 2) 1) \<noteq> 0
   \<and> at1 (movement_command (Player_useFrame (initialKeys\<lparr> d := True \<rparr>) (Euler 0 1 0)
             (Triplet 3 (- 2) 1) (Triplet 0 1 0))) = - 2
   \<and> at1 (movement_command (Player_useFrame_page (initialKeys\<lparr> d := True \<rparr>) (Euler 0 1 0)
             (Triplet 3 (- 2) 1) (Triplet 0 1 0))) \<noteq> 0"
  using movement_keeps_vertical [of "initialKeys\<lparr> d := True \<rparr>" "Euler 0 1 0" "Triplet 3 (- 2) 1" "Triplet 0 1 0"]
  by simp

text \<open>
  Claim C5. When the jump key is pressed and the absolute value of the cached vertical
  velocity is below 0.1, the last velocity command of the frame has the vertical component
  5; when it is at least 0.1, the movement command is the only command of the frame and
  its vertical component is the cached one, so the jump key changes nothing.
\<close>

theorem jump_threshold:
  "(space keys \<and> \<bar>at1 vel\<bar> < 0.1 \<longrightarrow>
      at1 (final_command (Player_useFrame keys rot vel pos)) = 5.0
      \<and> at1 (final_command (Player_useFrame_page keys rot vel pos)) = 5.0)
   \<and> (space keys \<and> \<bar>at1 vel\<bar> \<ge> 0.1 \<longrightarrow>
      velocity_set_calls (Player_useFrame keys rot vel pos)
        = [movement_command (Player_useFrame keys rot vel pos)]
      \<and> at1 (final_command (Player_useFrame keys rot vel pos)) = at1 vel
      \<and> velocity_set_calls (Player_useFrame_page keys rot vel pos)
        = [movement_command (Player_useFrame_page keys rot vel pos)]
      \<and> at1 (final_command (Player_useFrame_page keys rot vel pos)) = at1 vel)"
  by (simp add: frame_defs Let_def)

text \<open>
  Jump pressed at a vertical velocity of 0.05, inside the threshold, and at \<open>-0.1\<close>, on
  the threshold and so outside.
\<close>

theorem jump_threshold_witness:
  "(space (initialKeys\<lparr> space := True \<rparr>) \<and> \<bar>at1 (Triplet 0 0.05 0)\<bar> < (0.1 :: real))
   \<and> at1 (final_command (Player_useFrame (initialKeys\<lparr> space := True \<rparr>) (Euler 0 0 0)
            (Triplet 0 0.05 0) (Triplet 0 1 0))) = 5
   \<and> (space (initialKeys\<lparr> space := True \<rparr>) \<and> \<bar>at1 (Triplet 0 (- 0.1) 0)\<bar> \<ge> (0.1 :: real))
   \<and> at1 (final_command (Player_useFrame_page (initialKeys\<lparr> space := True \<rparr>) (Euler 0 0 0)
            (Triplet 0 (- 0.1) 0) (Triplet 0 1 0))) = - 0.1"
  using jump_threshold [of "initialKeys\<lparr> space := True \<rparr>" "Triplet 0 0.05 0" "Euler 0 0 0" "Triplet 0 1 0"]
        jump_threshold [of "initialKeys\<lparr> space := True \<rparr>" "Triplet 0 (- 0.1) 0" "Euler 0 0 0" "Triplet 0 1 0"]
  by (simp add: initialKeys_def)

text \<open>
  Claim C6. After every frame the position of the camera is the cached position of the
  body, component for component, whatever the keyboard state, the rotation and the
  velocity are.
\<close>

theorem camera_follows_position:
  "camera_position (Player_useFrame keys rot vel pos) = Vector3 (at0 pos) (at1 pos) (at2 pos)
   \<and> camera_position (Player_useFrame_page keys rot vel pos) = Vector3 (at0 pos) (at1 pos) (at2 pos)"
  by (simp add: Player_useFrame_def Player_useFrame_page_def Let_def)

text \<open>
  Claim C7. When no movement key is pressed, the front and the side vector are both
  zero, their difference has length zero, its normalisation is the zero vector (the
  division is by 1, not by the length), and the horizontal components of the movement
  command are both zero for every rotation of the camera.
\<close>

theorem no_keys_no_horizontal_velocity:
  assumes "\<not> w keys" and "\<not> s keys" and "\<not> a keys" and "\<not> d keys"
  shows "frontVector keys = Vector3 0 0 0 \<and> sideVector keys = Vector3 0 0 0
     \<and> length_vec (subVectors (frontVector keys) (sideVector keys)) = 0
     \<and> direction_normalized keys = Vector3 0 0 0
     \<and> at0 (movement_command (Player_useFrame keys rot vel pos)) = 0
     \<and> at2 (movement_command (Player_useFrame keys rot vel pos)) = 0
     \<and> at0 (movement_command (Player_useFrame_page keys rot vel pos)) = 0
     \<and> at2 (movement_command (Player_useFrame_page keys rot vel pos)) = 0"
proof -
  have axes: "frontVector keys = Vector3 0 0 0" "sideVector keys = Vector3 0 0 0"
    using assms by (simp_all add: frontVector_def sideVector_def set_vec_def Number_def)
  have len: "length_vec (subVectors (frontVector keys) (sideVector keys)) = 0"
    by (simp add: axes subVectors_def length_vec_def)
  have dir: "direction_normalized keys = Vector3 0 0 0"
    by (simp add: direction_normalized_def axes subVectors_def normalize_zero)
  have rot: "direction keys rot = Vector3 0 0 0"
    by (simp add: direction_def dir multiplyScalar_def applyEuler_zero)
  have "at0 (movement_command (Player_useFrame keys rot vel pos)) = 0"
       "at2 (movement_command (Player_useFrame keys rot vel pos)) = 0"
    by (simp_all add: Player_useFrame_def movement_command_def Let_def rot)
  with axes len dir show ?thesis
    by (simp add: Player_useFrame_page_eq)
qed

text \<open>Only jump pressed, the camera turned, the body falling.\<close>

theorem no_keys_no_horizontal_velocity_witness:
  "\<not> w (initialKeys\<lparr> space := True \<rparr>) \<and> \<not> s (initialKeys\<lparr> space := True \<rparr>)
   \<and> \<not> a (initialKeys\<lparr> space := True \<rparr>) \<and> \<not> d (initialKeys\<lparr> space := True \<rparr>)
   \<and> direction_normalized (initialKeys\<lparr> space := True \<rparr>) = Vector3 0 0 0
   \<and> at0 (movement_command (Player_useFrame (initialKeys\<lparr> space := True \<rparr>) (Euler 1 2 3)
            (Triplet 4 (- 3) 2) (Triplet 0 1 0))) = 0
   \<and> at2 (movement_command (Player_useFrame (initialKeys\<lparr> space := True \<rparr>) (Euler 1 2 3)
            (Triplet 4 (- 3) 2) (Triplet 0 1 0))) = 0"
  using no_keys_no_horizontal_velocity [of "initialKeys\<lparr> space := True \<rparr>" "Euler 1 2 3" "Triplet 4 (- 3) 2" "Triplet 0 1 0"]
  by (simp add: initialKeys_def)

text \<open>
  Claim C9. When the forward key alone of the four movement keys is pressed and the
  rotation of the camera is the identity, the direction is \<open>(0, 0, -1)\<close> times the move
  speed 5: the movement command has the horizontal components \<open>(0, -5)\<close> in \<open>(x, z)\<close>.
\<close>

theorem forward_alone_unrotated:
  assumes "w keys" and "\<not> s keys" and "\<not> a keys" and "\<not> d keys"
  shows "direction_normalized keys = Vector3 0 0 (- 1)
     \<and> direction keys (Euler 0 0 0) = Vector3 0 0 (- 5)
     \<and> direction_page keys (Euler 0 0 0) = Vector3 0 0 (- 5)
     \<and> movement_command (Player_useFrame keys (Euler 0 0 0) vel pos) = Triplet 0 (at1 vel) (- 5)
     \<and> movement_command (Player_useFrame_page keys (Euler 0 0 0) vel pos) = Triplet 0 (at1 vel) (- 5)"
proof -
  have dir: "direction_normalized keys = Vector3 0 0 (- 1)"
    using assms by (simp add: vector_defs)
  have rot: "direction keys (Euler 0 0 0) = Vector3 0 0 (- 5)"
    by (simp add: direction_def dir applyEuler_identity multiplyScalar_def moveSpeed_def)
  have rot_page: "direction_page keys (Euler 0 0 0) = Vector3 0 0 (- 5)"
    by (simp add: direction_page_def dir applyEuler_identity multiplyScalar_def)
  have "movement_command (Player_useFrame keys (Euler 0 0 0) vel pos) = Triplet 0 (at1 vel) (- 5)"
    by (simp add: Player_useFrame_def movement_command_def Let_def rot)
  with dir rot rot_page show ?thesis
    by (simp add: Player_useFrame_page_eq)
qed

text \<open>Forward alone while falling: the command is \<open>(0, -2, -5)\<close>.\<close>

theorem forward_alone_unrotated_witness:
  "w (initialKeys\<lparr> w := True \<rparr>) \<and> \<not> s (initialKeys\<lparr> w := True \<rparr>)
   \<and> \<not> a (initialKeys\<lparr> w := True \<rparr>) \<and> \<not> d (initialKeys\<lparr> w := True \<rparr>)
   \<and> movement_command (Player_useFrame (initialKeys\<lparr> w := True \<rparr>) (Euler 0 0 0)
        (Triplet 1 (- 2) 3) (Triplet 0 1 0)) = Triplet 0 (- 2) (- 5)"
  using forward_alone_unrotated [of "initialKeys\<lparr> w := True \<rparr>" "Triplet 1 (- 2) 3" "Triplet 0 1 0"]
  by (simp add: initialKeys_def)

section \<open>Release of the subscriptions\<close>

text \<open>
  Claim C8 says that the subscriptions to the position and the velocity of the body are
  released when the player is torn down. In \<^verbatim>\<open>src/app/page.tsx\<close> the two effects
  return no clean-up: after creation and teardown, from a world with nothing registered,
  both subscriptions are still registered, while the key handlers, whose effect does
  return a clean-up, are gone.
\<close>

theorem page_subscriptions_never_released:
  "subscriptions (mount Player_effects_page emptyWorld) = [(0, Position), (1, Velocity)]
   \<and> subscriptions (mount_then_teardown Player_effects_page emptyWorld)
       = [(0, Position), (1, Velocity)]
   \<and> listeners (mount_then_teardown Player_effects_page emptyWorld) = []"
  by (simp add: world_defs Player_effects_page_def emptyWorld_def)

text \<open>
  The effect of the second file returns the clean-up: creation adds the two
  subscriptions and teardown leaves exactly those that were there before.
\<close>

lemma subscriptions_released:
  assumes "\<forall>sub \<in> set (subscriptions wld). fst sub < incrementingId wld"
  shows "subscriptions (mount Player_effects wld)
           = subscriptions wld @ [(incrementingId wld, Position), (incrementingId wld + 1, Velocity)]"
    and "subscriptions (mount_then_teardown Player_effects wld) = subscriptions wld"
  using assms
  by (auto simp add: world_defs Player_effects_def filter_id_conv split: if_splits)

lemma subscriptions_released_example:
  "subscriptions (mount Player_effects emptyWorld) = [(0, Position), (1, Velocity)]
   \<and> subscriptions (mount_then_teardown Player_effects emptyWorld) = []"
  by (simp add: world_defs Player_effects_def emptyWorld_def)

end
